theory Spec2Isabelle
  imports Complex_Main "HOL-Library.Product_Lexorder"
begin

section \<open>Domain model (core/models.py)\<close>

text \<open>
  The dataclasses of \<^verbatim>\<open>core/models.py\<close> as records and its enums as datatypes.
  A UUID is an opaque identity, here a natural number. Fields that the optimizer never
  reads (stations, timestamps, a section's occupant list, geographic data) are left out.
  A Python \<^verbatim>\<open>float\<close> is modelled as an exact real number and a Python
  \<^verbatim>\<open>int\<close> as an unbounded integer.
\<close>

type_synonym UUID = nat

datatype TrainType = EXPRESS | PASSENGER | FREIGHT | SPECIAL

text \<open>
  A dataclass does not check the annotation of a field, so \<^verbatim>\<open>train_type\<close> may hold
  a member of the enum or any other hashable value (here named by a string).
\<close>

datatype type_value = Member TrainType | NonMember string

datatype TrainStatus = ON_TIME | DELAYED | CANCELLED | RUNNING | STOPPED

datatype SectionStatus = AVAILABLE | OCCUPIED | MAINTENANCE | BLOCKED

record Section =
  sec_id :: UUID
  max_speed_kmh :: int
  tracks :: int
  sec_status :: SectionStatus

record Train =
  t_id :: UUID
  number :: string
  name :: string
  train_type :: type_value
  max_speed :: int
  length_m :: int
  current_section :: "Section option"
  status :: TrainStatus
  delay_minutes :: int
  priority :: int

text \<open>The dictionary \<^verbatim>\<open>priority_map\<close> built in \<^verbatim>\<open>Train.__post_init__\<close>.\<close>

definition priority_map :: "TrainType \<rightharpoonup> int" where
  "priority_map = [SPECIAL \<mapsto> 4, EXPRESS \<mapsto> 3, PASSENGER \<mapsto> 2, FREIGHT \<mapsto> 1]"

text \<open>\<^verbatim>\<open>priority_map.get(self.train_type, 1)\<close>\<close>

definition priority_of_type :: "type_value \<Rightarrow> int" where
  "priority_of_type v =
     (case v of
        Member ty \<Rightarrow> (case priority_map ty of Some p \<Rightarrow> p | None \<Rightarrow> 1)
      | NonMember _ \<Rightarrow> 1)"

text \<open>
  The generated \<^verbatim>\<open>__init__\<close> of \<^verbatim>\<open>Train\<close> followed by \<^verbatim>\<open>__post_init__\<close>:
  every field is stored as supplied, including the caller's \<^verbatim>\<open>priority\<close>, and then
  \<^verbatim>\<open>priority\<close> is overwritten from the type. (The identity is kept: a UUID is truthy.)
\<close>

definition Train_init ::
  "UUID \<Rightarrow> string \<Rightarrow> string \<Rightarrow> type_value \<Rightarrow> int \<Rightarrow> int \<Rightarrow> Section option \<Rightarrow>
   TrainStatus \<Rightarrow> int \<Rightarrow> int \<Rightarrow> Train" where
  "Train_init i num nm ty spd len sec st dly prio =
     (let self = \<lparr>t_id = i, number = num, name = nm, train_type = ty, max_speed = spd,
                  length_m = len, current_section = sec, status = st,
                  delay_minutes = dly, priority = prio\<rparr>
      in self\<lparr>priority := priority_of_type (train_type self)\<rparr>)"

text \<open>\<^verbatim>\<open>Train.is_delayed\<close>\<close>

definition is_delayed :: "Train \<Rightarrow> bool" where
  "is_delayed t = (delay_minutes t > 0)"

datatype error = TypeError | SolverError

text \<open>
  An argument of a call is either passed or left out. \<^verbatim>\<open>Decision\<close> declares
  \<^verbatim>\<open>id: UUID\<close> and \<^verbatim>\<open>train: Train\<close> and \<^verbatim>\<open>action: str\<close> without defaults, so its
  generated \<^verbatim>\<open>__init__\<close> raises \<^verbatim>\<open>TypeError\<close> when one of them is left out. The
  optimizer always passes \<^verbatim>\<open>train\<close> and \<^verbatim>\<open>action\<close>; only \<^verbatim>\<open>id\<close> can be absent.
\<close>

datatype 'a arg = Absent | Passed 'a

record Decision_kwargs =
  kw_id :: "UUID arg"
  kw_train :: Train
  kw_action :: string
  kw_target_section :: "Section option"
  kw_reason :: string
  kw_confidence :: real

record Decision =
  d_id :: UUID
  d_train :: Train
  action :: string
  target_section :: "Section option"
  reason :: string
  confidence :: real

definition Decision_init :: "Decision_kwargs \<Rightarrow> error + Decision" where
  "Decision_init kw =
     (case kw_id kw of
        Absent \<Rightarrow> Inl TypeError
      | Passed u \<Rightarrow>
          Inr \<lparr>d_id = u, d_train = kw_train kw, action = kw_action kw,
               target_section = kw_target_section kw, reason = kw_reason kw,
               confidence = kw_confidence kw\<rparr>)"

record OptimizationResult =
  decisions :: "Decision list"
  total_delay_reduction :: int
  throughput_improvement :: real
  confidence_score :: real
  computation_time :: real

record SystemState =
  trains :: "Train list"
  sections :: "Section list"

section \<open>The precedence model (core/optimizer.py)\<close>

text \<open>\<^verbatim>\<open>_get_trains_needing_decisions\<close>: running or delayed trains that have a section.\<close>

definition get_trains_needing_decisions :: "SystemState \<Rightarrow> Train list" where
  "get_trains_needing_decisions st =
     filter (\<lambda>t. status t \<in> set [RUNNING, DELAYED] \<and> current_section t \<noteq> None) (trains st)"

text \<open>
  \<^verbatim>\<open>_trains_compete_for_resource\<close>: both trains have a section and the identities of the
  two sections are equal. (A \<^verbatim>\<open>Section\<close> object is always truthy.)
\<close>

definition trains_compete_for_resource :: "Train \<Rightarrow> Train \<Rightarrow> bool" where
  "trains_compete_for_resource train1 train2 =
     (case current_section train1 of
        None \<Rightarrow> False
      | Some s1 \<Rightarrow>
          (case current_section train2 of
             None \<Rightarrow> False
           | Some s2 \<Rightarrow> sec_id s1 = sec_id s2))"

text \<open>
  The CP-SAT model that \<^verbatim>\<open>_solve_precedence_problem\<close> builds. Its variables are one
  Boolean \<^verbatim>\<open>precedence_vars[(i, j)]\<close> for each ordered pair of distinct list positions and
  the integer \<^verbatim>\<open>total_delay\<close> with domain 0..10000. Each \<^verbatim>\<open>model.Add\<close> of the source
  is one constraint; the objective is to minimise \<^verbatim>\<open>total_delay\<close>.
\<close>

datatype constraint =
    SumIsOne nat nat
  | IsOne nat nat
  | TotalDelayEq int

record CpModel =
  num_trains :: nat
  constraints :: "constraint list"

record assignment =
  before :: "nat \<Rightarrow> nat \<Rightarrow> bool"
  total_delay_value :: int

definition add_precedence_constraints :: "Train list \<Rightarrow> constraint list" where
  "add_precedence_constraints ts =
     [SumIsOne i j. i \<leftarrow> [0..<length ts], j \<leftarrow> [0..<length ts],
        i \<noteq> j \<and> trains_compete_for_resource (ts ! i) (ts ! j)]"

definition add_priority_constraints :: "Train list \<Rightarrow> constraint list" where
  "add_priority_constraints ts =
     [IsOne i j. i \<leftarrow> [0..<length ts], j \<leftarrow> [0..<length ts],
        i \<noteq> j \<and> priority (ts ! i) > priority (ts ! j),
        delay_minutes (ts ! j) - delay_minutes (ts ! i) < 30]"

text \<open>
  \<^verbatim>\<open>_add_capacity_constraints\<close> groups the trains by section and, for an overloaded
  section, executes \<^verbatim>\<open>pass\<close>: it adds nothing to the model.
\<close>

definition add_capacity_constraints :: "Train list \<Rightarrow> SystemState \<Rightarrow> constraint list" where
  "add_capacity_constraints ts st = []"

definition delay_terms :: "Train list \<Rightarrow> int list" where
  "delay_terms ts = map (\<lambda>t. (priority t * 10) * delay_minutes t) ts"

definition build_model :: "Train list \<Rightarrow> SystemState \<Rightarrow> CpModel" where
  "build_model ts st =
     \<lparr>num_trains = length ts,
      constraints = add_precedence_constraints ts @ add_priority_constraints ts
                    @ add_capacity_constraints ts st
                    @ [TotalDelayEq (sum_list (delay_terms ts))]\<rparr>"

fun satisfies :: "assignment \<Rightarrow> constraint \<Rightarrow> bool" where
  "satisfies a (SumIsOne i j) = (of_bool (before a i j) + of_bool (before a j i) = (1::int))"
| "satisfies a (IsOne i j) = before a i j"
| "satisfies a (TotalDelayEq s) = (total_delay_value a = s)"

definition feasible :: "CpModel \<Rightarrow> assignment \<Rightarrow> bool" where
  "feasible m a =
     (0 \<le> total_delay_value a \<and> total_delay_value a \<le> 10000
      \<and> list_all (satisfies a) (constraints m))"

text \<open>\<^verbatim>\<open>model.Minimize(total_delay)\<close>\<close>

definition objective_value :: "assignment \<Rightarrow> int" where
  "objective_value a = total_delay_value a"

text \<open>
  The solver is external (OR-tools). It is a parameter: given the model it raises, or
  returns a status together with the values that \<^verbatim>\<open>solver.Value\<close> reports.
\<close>

datatype CpSolverStatus = UNKNOWN | MODEL_INVALID | FEASIBLE | INFEASIBLE | OPTIMAL

type_synonym solver = "CpModel \<Rightarrow> error + (CpSolverStatus \<times> assignment)"

section \<open>Decision extraction\<close>

text \<open>Decimal digits of a natural number, as an f-string prints an \<^verbatim>\<open>int\<close>.\<close>

fun str_of_nat :: "nat \<Rightarrow> string" where
  "str_of_nat n =
     (if n < 10 then [''0123456789'' ! n]
      else str_of_nat (n div 10) @ [''0123456789'' ! (n mod 10)])"

declare str_of_nat.simps [simp del]

text \<open>
  A loop that constructs one \<^verbatim>\<open>Decision\<close> per iteration and appends it: the first
  constructor call that raises ends the loop with that exception.
\<close>

fun construct_all :: "Decision_kwargs list \<Rightarrow> error + Decision list" where
  "construct_all [] = Inr []"
| "construct_all (kw # kws) =
     (case Decision_init kw of
        Inl e \<Rightarrow> Inl e
      | Inr d \<Rightarrow> (case construct_all kws of Inl e \<Rightarrow> Inl e | Inr ds \<Rightarrow> Inr (d # ds)))"

text \<open>The number of trains \<^verbatim>\<open>j\<close> other than \<^verbatim>\<open>i\<close> whose variable \<^verbatim>\<open>(j, i)\<close> has value 1.\<close>

definition position :: "assignment \<Rightarrow> nat \<Rightarrow> nat \<Rightarrow> nat" where
  "position a n i = length (filter (\<lambda>j. i \<noteq> j \<and> before a j i) [0..<n])"

text \<open>The list \<^verbatim>\<open>precedence_order\<close> after its stable sort by position.\<close>

definition precedence_order :: "assignment \<Rightarrow> Train list \<Rightarrow> (nat \<times> nat \<times> Train) list" where
  "precedence_order a ts =
     sort_key fst (map (\<lambda>i. (position a (length ts) i, i, ts ! i)) [0..<length ts])"

text \<open>The keyword arguments of the two constructor calls in \<^verbatim>\<open>_extract_decisions_from_solution\<close>.\<close>

definition solution_kwargs :: "nat \<Rightarrow> Train \<Rightarrow> Decision_kwargs" where
  "solution_kwargs pos t =
     (if pos = 0 then
        \<lparr>kw_id = Absent, kw_train = t, kw_action = ''proceed'',
         kw_target_section = current_section t,
         kw_reason = ''Highest priority in precedence order'', kw_confidence = 0.9\<rparr>
      else
        \<lparr>kw_id = Absent, kw_train = t, kw_action = ''wait'',
         kw_target_section = None,
         kw_reason = ''Waiting for '' @ str_of_nat pos @ '' higher priority trains'',
         kw_confidence = 0.8\<rparr>)"

definition extract_kwargs :: "assignment \<Rightarrow> Train list \<Rightarrow> Decision_kwargs list" where
  "extract_kwargs a ts = map (\<lambda>(pos, idx, t). solution_kwargs pos t) (precedence_order a ts)"

definition extract_decisions_from_solution :: "assignment \<Rightarrow> Train list \<Rightarrow> error + Decision list" where
  "extract_decisions_from_solution a ts = construct_all (extract_kwargs a ts)"

text \<open>
  \<^verbatim>\<open>sorted(trains, key=lambda t: (t.priority, -t.delay_minutes), reverse=True)\<close>.
  Python sorts stably; with \<^verbatim>\<open>reverse=True\<close> it reverses the list, sorts it stably in
  ascending order of the key and reverses the result.
\<close>

definition sorted_trains :: "Train list \<Rightarrow> Train list" where
  "sorted_trains ts = rev (sort_key (\<lambda>t. (priority t, - delay_minutes t)) (rev ts))"

text \<open>The keyword arguments of the two constructor calls in \<^verbatim>\<open>_generate_heuristic_decisions\<close>.\<close>

definition heuristic_kwargs :: "nat \<Rightarrow> Train \<Rightarrow> Decision_kwargs" where
  "heuristic_kwargs i t =
     (if i = 0 then
        \<lparr>kw_id = Absent, kw_train = t, kw_action = ''proceed'',
         kw_target_section = current_section t,
         kw_reason = ''Highest priority by heuristic'', kw_confidence = 0.6\<rparr>
      else
        \<lparr>kw_id = Absent, kw_train = t, kw_action = ''wait'',
         kw_target_section = None,
         kw_reason = ''Lower priority than '' @ str_of_nat i @ '' trains'',
         kw_confidence = 0.5\<rparr>)"

definition heuristic_kwargs_list :: "Train list \<Rightarrow> Decision_kwargs list" where
  "heuristic_kwargs_list ts = map (\<lambda>(i, t). heuristic_kwargs i t) (enumerate 0 (sorted_trains ts))"

definition generate_heuristic_decisions :: "Train list \<Rightarrow> error + Decision list" where
  "generate_heuristic_decisions ts = construct_all (heuristic_kwargs_list ts)"

text \<open>\<^verbatim>\<open>_generate_fallback_decisions\<close>\<close>

definition fallback_kwargs :: "Train \<Rightarrow> Decision_kwargs" where
  "fallback_kwargs t =
     \<lparr>kw_id = Absent, kw_train = t, kw_action = ''proceed'',
      kw_target_section = current_section t,
      kw_reason = ''Fallback: proceed with caution'', kw_confidence = 0.3\<rparr>"

definition generate_fallback_decisions :: "SystemState \<Rightarrow> error + OptimizationResult" where
  "generate_fallback_decisions st =
     (case construct_all
             (map fallback_kwargs
                (filter (\<lambda>t. status t \<in> set [RUNNING, DELAYED]) (trains st))) of
        Inl e \<Rightarrow> Inl e
      | Inr ds \<Rightarrow>
          Inr \<lparr>decisions = ds, total_delay_reduction = 0, throughput_improvement = 0,
               confidence_score = 0.3, computation_time = 0\<rparr>)"

section \<open>Metrics and orchestration\<close>

definition calculate_delay_reduction :: "Decision list \<Rightarrow> int" where
  "calculate_delay_reduction ds =
     sum_list (map (\<lambda>d. min (delay_minutes (d_train d)) 10)
                 (filter (\<lambda>d. action d = ''proceed'' \<and> is_delayed (d_train d)) ds))"

definition calculate_throughput_improvement :: "Decision list \<Rightarrow> real" where
  "calculate_throughput_improvement ds =
     (if length ds = 0 then 0
      else (real (length (filter (\<lambda>d. action d = ''proceed'') ds)) / real (length ds)) * 20)"

definition calculate_confidence :: "Decision list \<Rightarrow> SystemState \<Rightarrow> real" where
  "calculate_confidence ds st =
     (if ds = [] then 1
      else (sum_list (map confidence ds) / real (length ds))
           * min 1 (real (length (trains st)) / 20))"

definition solve_precedence_problem :: "solver \<Rightarrow> Train list \<Rightarrow> SystemState \<Rightarrow> error + Decision list" where
  "solve_precedence_problem slv ts st =
     (case slv (build_model ts st) of
        Inl e \<Rightarrow> Inl e
      | Inr (stat, a) \<Rightarrow>
          if stat \<in> set [OPTIMAL, FEASIBLE] then extract_decisions_from_solution a ts
          else generate_heuristic_decisions ts)"

text \<open>
  The body of the \<^verbatim>\<open>try\<close> block of \<^verbatim>\<open>optimize\<close>; \<^verbatim>\<open>elapsed\<close> is the wall-clock
  time in seconds that the two readings of the clock differ by.
\<close>

definition optimize_try :: "solver \<Rightarrow> real \<Rightarrow> SystemState \<Rightarrow> error + OptimizationResult" where
  "optimize_try slv elapsed st =
     (let trains_needing_decisions = get_trains_needing_decisions st in
      if trains_needing_decisions = [] then
        Inr \<lparr>decisions = [], total_delay_reduction = 0, throughput_improvement = 0,
             confidence_score = 1, computation_time = 0\<rparr>
      else
        (case solve_precedence_problem slv trains_needing_decisions st of
           Inl e \<Rightarrow> Inl e
         | Inr ds \<Rightarrow>
             Inr \<lparr>decisions = ds,
                  total_delay_reduction = calculate_delay_reduction ds,
                  throughput_improvement = calculate_throughput_improvement ds,
                  confidence_score = calculate_confidence ds st,
                  computation_time = elapsed\<rparr>))"

text \<open>
  \<^verbatim>\<open>optimize\<close>: an exception of the \<^verbatim>\<open>try\<close> block is caught and the fallback is
  returned; an exception raised by the fallback itself, inside the handler, propagates.
\<close>

definition optimize :: "solver \<Rightarrow> real \<Rightarrow> SystemState \<Rightarrow> error + OptimizationResult" where
  "optimize slv elapsed st =
     (case optimize_try slv elapsed st of
        Inr r \<Rightarrow> Inr r
      | Inl e \<Rightarrow> generate_fallback_decisions st)"

section \<open>Concrete inputs\<close>

text \<open>
  Two single-track sections and a helper that constructs a train through the
  constructor, as the tests of the repository do.
\<close>

definition section_a :: Section where
  "section_a = \<lparr>sec_id = 1, max_speed_kmh = 80, tracks = 1, sec_status = AVAILABLE\<rparr>"

definition section_b :: Section where
  "section_b = \<lparr>sec_id = 2, max_speed_kmh = 80, tracks = 1, sec_status = AVAILABLE\<rparr>"

definition example_train :: "UUID \<Rightarrow> TrainType \<Rightarrow> Section option \<Rightarrow> TrainStatus \<Rightarrow> int \<Rightarrow> Train" where
  "example_train i ty sec st dly =
     Train_init i ''12345'' ''Train'' (Member ty) 100 400 sec st dly 1"

text \<open>One running express train on section A.\<close>

definition one_running_state :: SystemState where
  "one_running_state =
     \<lparr>trains = [example_train 10 EXPRESS (Some section_a) RUNNING 5], sections = [section_a]\<rparr>"

text \<open>A state whose only trains are stopped, or running without a section.\<close>

definition idle_state :: SystemState where
  "idle_state =
     \<lparr>trains = [example_train 10 EXPRESS (Some section_a) STOPPED 5,
                example_train 11 FREIGHT None RUNNING 0], sections = [section_a]\<rparr>"

text \<open>Two express trains on section A: the first 30 minutes late, the second on time.\<close>

definition delayed_pair :: "Train list" where
  "delayed_pair = [example_train 10 EXPRESS (Some section_a) DELAYED 30,
                   example_train 11 EXPRESS (Some section_a) RUNNING 0]"

text \<open>Two express trains on section A with delays 5 and 10.\<close>

definition equal_pair :: "Train list" where
  "equal_pair = [example_train 10 EXPRESS (Some section_a) RUNNING 5,
                 example_train 11 EXPRESS (Some section_a) RUNNING 10]"

definition equal_pair_state :: SystemState where
  "equal_pair_state = \<lparr>trains = equal_pair, sections = [section_a]\<rparr>"

text \<open>An express train on section A and a freight train on section B.\<close>

definition apart_pair :: "Train list" where
  "apart_pair = [example_train 10 EXPRESS (Some section_a) RUNNING 0,
                 example_train 11 FREIGHT (Some section_b) RUNNING 0]"

definition apart_state :: SystemState where
  "apart_state = \<lparr>trains = apart_pair, sections = [section_a, section_b]\<rparr>"

text \<open>An express train and a freight train on section A; the freight train is 40 minutes late.\<close>

definition late_freight_pair :: "Train list" where
  "late_freight_pair = [example_train 10 EXPRESS (Some section_a) RUNNING 0,
                        example_train 11 FREIGHT (Some section_a) DELAYED 40]"

text \<open>Three express trains on section A, and an assignment that orders them in a cycle.\<close>

definition three_on_a :: "Train list" where
  "three_on_a = [example_train 10 EXPRESS (Some section_a) RUNNING 0,
                 example_train 11 EXPRESS (Some section_a) RUNNING 0,
                 example_train 12 EXPRESS (Some section_a) RUNNING 0]"

definition three_state :: SystemState where
  "three_state = \<lparr>trains = three_on_a, sections = [section_a]\<rparr>"

definition cyclic_assignment :: assignment where
  "cyclic_assignment =
     \<lparr>before = (\<lambda>i j. (i, j) \<in> set [(0, 1), (1, 2), (2, 0)]), total_delay_value = 0\<rparr>"

text \<open>Two assignments for \<open>equal_pair\<close>: the first train first, and the second train first.\<close>

definition first_then_second :: assignment where
  "first_then_second = \<lparr>before = (\<lambda>i j. (i, j) \<in> set [(0, 1)]), total_delay_value = 450\<rparr>"

definition second_then_first :: assignment where
  "second_then_first = \<lparr>before = (\<lambda>i j. (i, j) \<in> set [(1, 0)]), total_delay_value = 450\<rparr>"

text \<open>A solver that raises, and one that reports a given status and assignment.\<close>

definition raising_solver :: solver where
  "raising_solver m = Inl SolverError"

definition reporting_solver :: "CpSolverStatus \<Rightarrow> assignment \<Rightarrow> solver" where
  "reporting_solver stat a m = Inr (stat, a)"

definition late_freight_state :: SystemState where
  "late_freight_state = \<lparr>trains = late_freight_pair, sections = [section_a]\<rparr>"

text \<open>Two express trains without delay, one on section A and one on section B.\<close>

definition separate_pair :: "Train list" where
  "separate_pair = [example_train 10 EXPRESS (Some section_a) RUNNING 0,
                    example_train 11 EXPRESS (Some section_b) RUNNING 0]"

definition separate_state :: SystemState where
  "separate_state = \<lparr>trains = separate_pair, sections = [section_a, section_b]\<rparr>"

definition no_order :: assignment where
  "no_order = \<lparr>before = (\<lambda>i j. False), total_delay_value = 0\<rparr>"





section \<open>Priority derivation\<close>

text \<open>
  Claim C6. A constructed train has priority 4 if its type is Special, 3 if Express,
  2 if Passenger, 1 if Freight and 1 for any other type value, whatever the other
  arguments of the constructor are, the supplied priority included.
\<close>

theorem Train_init_priority:
  "priority (Train_init i num nm ty spd len sec st dly prio) =
     (if ty = Member SPECIAL then 4
      else if ty = Member EXPRESS then 3
      else if ty = Member PASSENGER then 2
      else if ty = Member FREIGHT then 1
      else 1)"
proof (cases ty)
  case (Member t)
  then show ?thesis
    by (cases t) (simp_all add: Train_init_def priority_of_type_def priority_map_def)
next
  case (NonMember s)
  then show ?thesis
    by (simp add: Train_init_def priority_of_type_def)
qed

section \<open>Constructing decisions without an identity\<close>

text \<open>
  Every constructor call of the optimizer leaves \<^verbatim>\<open>id\<close> out, so a loop that makes at
  least one call raises \<^verbatim>\<open>TypeError\<close>.
\<close>

lemma construct_all_absent:
  "kws \<noteq> [] \<Longrightarrow> list_all (\<lambda>kw. kw_id kw = Absent) kws \<Longrightarrow> construct_all kws = Inl TypeError"
  by (cases kws) (simp_all add: Decision_init_def)

lemma extract_kwargs_absent: "list_all (\<lambda>kw. kw_id kw = Absent) (extract_kwargs a ts)"
  by (auto simp: extract_kwargs_def list_all_iff solution_kwargs_def)

lemma heuristic_kwargs_absent: "list_all (\<lambda>kw. kw_id kw = Absent) (heuristic_kwargs_list ts)"
  by (auto simp: heuristic_kwargs_list_def list_all_iff heuristic_kwargs_def)

lemma length_precedence_order: "length (precedence_order a ts) = length ts"
  by (simp add: precedence_order_def)

lemma length_extract_kwargs: "length (extract_kwargs a ts) = length ts"
  by (simp add: extract_kwargs_def length_precedence_order)

lemma length_sorted_trains: "length (sorted_trains ts) = length ts"
  by (simp add: sorted_trains_def)

lemma length_heuristic_kwargs_list: "length (heuristic_kwargs_list ts) = length ts"
  by (simp add: heuristic_kwargs_list_def length_sorted_trains)

lemma solve_is_error:
  assumes "ts \<noteq> []"
  shows "\<exists>e. solve_precedence_problem slv ts st = Inl e"
proof (cases "slv (build_model ts st)")
  case (Inl e)
  then show ?thesis by (simp add: solve_precedence_problem_def)
next
  case (Inr r)
  obtain stat a where r: "r = (stat, a)" by (cases r)
  have "extract_kwargs a ts \<noteq> []"
    using assms by (metis length_extract_kwargs length_0_conv)
  then have 1: "extract_decisions_from_solution a ts = Inl TypeError"
    unfolding extract_decisions_from_solution_def
    by (rule construct_all_absent) (rule extract_kwargs_absent)
  have "heuristic_kwargs_list ts \<noteq> []"
    using assms by (metis length_heuristic_kwargs_list length_0_conv)
  then have 2: "generate_heuristic_decisions ts = Inl TypeError"
    unfolding generate_heuristic_decisions_def
    by (rule construct_all_absent) (rule heuristic_kwargs_absent)
  show ?thesis using Inr r 1 2 by (simp add: solve_precedence_problem_def)
qed

lemma fallback_raises:
  assumes "t \<in> set (trains st)" "status t = RUNNING \<or> status t = DELAYED"
  shows "generate_fallback_decisions st = Inl TypeError"
proof -
  let ?kws = "map fallback_kwargs (filter (\<lambda>t. status t \<in> set [RUNNING, DELAYED]) (trains st))"
  have "?kws \<noteq> []" using assms by (auto simp: filter_empty_conv)
  moreover have "list_all (\<lambda>kw. kw_id kw = Absent) ?kws"
    by (simp add: list_all_iff fallback_kwargs_def)
  ultimately have "construct_all ?kws = Inl TypeError" by (rule construct_all_absent)
  then show ?thesis by (simp add: generate_fallback_decisions_def)
qed

lemma optimize_raises:
  assumes "get_trains_needing_decisions st \<noteq> []"
  shows "optimize slv elapsed st = Inl TypeError"
proof -
  obtain t where t: "t \<in> set (get_trains_needing_decisions st)"
    using assms by (cases "get_trains_needing_decisions st") auto
  then have "t \<in> set (trains st)" "status t = RUNNING \<or> status t = DELAYED"
    by (auto simp: get_trains_needing_decisions_def)
  then have fb: "generate_fallback_decisions st = Inl TypeError" by (rule fallback_raises)
  obtain e where "solve_precedence_problem slv (get_trains_needing_decisions st) st = Inl e"
    using solve_is_error [OF assms] by blast
  then show ?thesis using assms fb by (simp add: optimize_def optimize_try_def Let_def)
qed

lemma extract_raises:
  assumes "ts \<noteq> []"
  shows "extract_decisions_from_solution a ts = Inl TypeError"
proof -
  have "extract_kwargs a ts \<noteq> []"
    using assms by (metis length_extract_kwargs length_0_conv)
  then show ?thesis
    unfolding extract_decisions_from_solution_def
    by (rule construct_all_absent) (rule extract_kwargs_absent)
qed

lemma heuristic_raises:
  assumes "ts \<noteq> []"
  shows "generate_heuristic_decisions ts = Inl TypeError"
proof -
  have "heuristic_kwargs_list ts \<noteq> []"
    using assms by (metis length_heuristic_kwargs_list length_0_conv)
  then show ?thesis
    unfolding generate_heuristic_decisions_def
    by (rule construct_all_absent) (rule heuristic_kwargs_absent)
qed

lemma solve_reported_raises:
  assumes "ts \<noteq> []"
  shows "solve_precedence_problem (reporting_solver stat a) ts st = Inl TypeError"
  using assms
  by (simp add: solve_precedence_problem_def reporting_solver_def extract_raises heuristic_raises)


text \<open>
  The \<^verbatim>\<open>try\<close> block returns a result only through its first \<^verbatim>\<open>return\<close>: a result
  of the normal path has no decision and the confidence score 1.
\<close>

lemma optimize_try_result_trivial:
  assumes "optimize_try slv elapsed st = Inr r"
  shows "decisions r = [] \<and> confidence_score r = 1"
proof (cases "get_trains_needing_decisions st = []")
  case True
  then show ?thesis using assms by (auto simp: optimize_try_def)
next
  case False
  then obtain e where "solve_precedence_problem slv (get_trains_needing_decisions st) st = Inl e"
    using solve_is_error by blast
  then show ?thesis using assms False by (simp add: optimize_try_def Let_def)
qed

text \<open>
  Claim C1 says that \<^verbatim>\<open>optimize\<close> never propagates an exception and returns the
  fallback result with one \<^verbatim>\<open>proceed\<close> decision per running or delayed train. On the
  state with one running express train the code does not: whatever the solver does and
  whatever the clock reads, the constructor call of the normal path raises, the handler
  runs the fallback, the fallback's own constructor call raises, and \<^verbatim>\<open>TypeError\<close>
  leaves \<^verbatim>\<open>optimize\<close>.
\<close>

theorem optimize_propagates_TypeError:
  "optimize slv elapsed one_running_state = Inl TypeError"
proof -
  have "get_trains_needing_decisions one_running_state \<noteq> []"
    by (simp add: get_trains_needing_decisions_def one_running_state_def
        example_train_def Train_init_def)
  then show ?thesis by (rule optimize_raises)
qed

section \<open>The heuristic order\<close>

text \<open>
  Claim C2 says that the heuristic orders trains of equal priority by delay, the most
  delayed first. For two express trains given as (30 minutes late, on time) the sorted
  list of the code is (on time, 30 minutes late): the key negates the delay and
  \<^verbatim>\<open>reverse=True\<close> then reverses the order again.
\<close>

theorem sorted_trains_delay_ascending:
  "map priority delayed_pair = [3, 3]
   \<and> map delay_minutes delayed_pair = [30, 0]
   \<and> map delay_minutes (sorted_trains delayed_pair) = [0, 30]"
  by (simp add: delayed_pair_def sorted_trains_def example_train_def Train_init_def
      priority_of_type_def priority_map_def)

section \<open>The train at rank 1\<close>

text \<open>
  Claim C3 says that the train at a rank greater than 0 gets a decision with the action
  \<^verbatim>\<open>wait\<close>, the reason "Waiting for \<open>rank\<close> higher priority trains", the confidence
  0.8 on the solved path and 0.5 on the heuristic path, and no target section. For two
  express trains on section A with delays 5 and 10 and the feasible assignment that puts
  the first before the second, the second train has rank 1. The code produces no decision
  for it: whether the solver reports a solution (solved path) or none (heuristic path),
  the first constructor call of the loop raises \<^verbatim>\<open>TypeError\<close>, no decision list is
  returned, and \<^verbatim>\<open>optimize\<close> raises.
\<close>

theorem rank_one_train_gets_no_decision:
  "feasible (build_model equal_pair equal_pair_state) first_then_second
   \<and> map fst (precedence_order first_then_second equal_pair) = [0, 1]
   \<and> solve_precedence_problem (reporting_solver OPTIMAL first_then_second)
        equal_pair equal_pair_state = Inl TypeError
   \<and> solve_precedence_problem (reporting_solver UNKNOWN first_then_second)
        equal_pair equal_pair_state = Inl TypeError
   \<and> optimize (reporting_solver OPTIMAL first_then_second) elapsed equal_pair_state
        = Inl TypeError
   \<and> optimize (reporting_solver UNKNOWN first_then_second) elapsed equal_pair_state
        = Inl TypeError"
proof -
  have f: "feasible (build_model equal_pair equal_pair_state) first_then_second" by code_simp
  have r: "map fst (precedence_order first_then_second equal_pair) = [0, 1]" by code_simp
  have ne: "equal_pair \<noteq> []" by (simp add: equal_pair_def)
  have el: "get_trains_needing_decisions equal_pair_state \<noteq> []"
    by (simp add: get_trains_needing_decisions_def equal_pair_state_def equal_pair_def
        example_train_def Train_init_def)
  show ?thesis
    using f r solve_reported_raises [OF ne] optimize_raises [OF el] by simp
qed

section \<open>No eligible train\<close>

text \<open>
  Claim C7. When no train of the state is running or delayed with a section set,
  \<^verbatim>\<open>optimize\<close> returns the result with no decision, confidence 1, delay reduction 0,
  throughput improvement 0 and computation time 0. The result is the same for every
  solver, also for one that raises: the solver is not consulted.
\<close>

theorem optimize_no_eligible:
  assumes "\<forall>t \<in> set (trains st). \<not> (status t \<in> {RUNNING, DELAYED} \<and> current_section t \<noteq> None)"
  shows "optimize slv elapsed st =
           Inr \<lparr>decisions = [], total_delay_reduction = 0, throughput_improvement = 0,
                confidence_score = 1, computation_time = 0\<rparr>"
proof -
  have "get_trains_needing_decisions st = []"
    using assms by (auto simp: get_trains_needing_decisions_def filter_empty_conv)
  then show ?thesis by (simp add: optimize_def optimize_try_def)
qed

theorem optimize_no_eligible_witness:
  "list_all (\<lambda>t. \<not> (status t \<in> {RUNNING, DELAYED} \<and> current_section t \<noteq> None))
     (trains idle_state)
   \<and> optimize raising_solver 7 idle_state =
           Inr \<lparr>decisions = [], total_delay_reduction = 0, throughput_improvement = 0,
                confidence_score = 1, computation_time = 0\<rparr>"
proof -
  have h: "\<forall>t \<in> set (trains idle_state). \<not> (status t \<in> {RUNNING, DELAYED} \<and> current_section t \<noteq> None)"
    by (simp add: idle_state_def example_train_def Train_init_def)
  show ?thesis using h optimize_no_eligible [OF h, of raising_solver 7]
    by (simp add: list_all_iff)
qed

section \<open>The constraints of the model\<close>

lemma set_add_precedence_constraints:
  "set (add_precedence_constraints ts) =
     {SumIsOne i j | i j. i < length ts \<and> j < length ts \<and> i \<noteq> j
                          \<and> trains_compete_for_resource (ts ! i) (ts ! j)}"
  by (auto simp: add_precedence_constraints_def)

lemma set_add_priority_constraints:
  "set (add_priority_constraints ts) =
     {IsOne i j | i j. i < length ts \<and> j < length ts \<and> i \<noteq> j
                       \<and> priority (ts ! i) > priority (ts ! j)
                       \<and> delay_minutes (ts ! j) - delay_minutes (ts ! i) < 30}"
  by (auto simp: add_priority_constraints_def)

lemma set_constraints_build_model:
  "set (constraints (build_model ts st)) =
     set (add_precedence_constraints ts) \<union> set (add_priority_constraints ts)
     \<union> {TotalDelayEq (sum_list (delay_terms ts))}"
  by (auto simp: build_model_def add_capacity_constraints_def)

lemma feasible_iff:
  "feasible m a \<longleftrightarrow>
     0 \<le> total_delay_value a \<and> total_delay_value a \<le> 10000
     \<and> (\<forall>c \<in> set (constraints m). satisfies a c)"
  by (simp add: feasible_def list_all_iff)

lemma compete_sym:
  "trains_compete_for_resource t u = trains_compete_for_resource u t"
  by (auto simp: trains_compete_for_resource_def split: option.splits)

lemma feasible_exclusive:
  assumes "feasible (build_model ts st) a" "i < length ts" "j < length ts" "i \<noteq> j"
    "trains_compete_for_resource (ts ! i) (ts ! j)"
  shows "before a i j \<noteq> before a j i"
proof -
  have "SumIsOne i j \<in> set (constraints (build_model ts st))"
    using assms by (auto simp: set_constraints_build_model set_add_precedence_constraints)
  then have "satisfies a (SumIsOne i j)" using assms(1) unfolding feasible_iff by blast
  then show ?thesis by (cases "before a i j"; cases "before a j i") simp_all
qed

lemma IsOne_in_priority_iff:
  "IsOne i j \<in> set (add_priority_constraints ts) \<longleftrightarrow>
     i < length ts \<and> j < length ts \<and> i \<noteq> j \<and> priority (ts ! i) > priority (ts ! j)
     \<and> delay_minutes (ts ! j) - delay_minutes (ts ! i) < 30"
  unfolding set_add_priority_constraints by blast

lemma IsOne_in_model_iff:
  "IsOne i j \<in> set (constraints (build_model ts st)) \<longleftrightarrow>
     IsOne i j \<in> set (add_priority_constraints ts)"
  unfolding set_constraints_build_model set_add_precedence_constraints by blast

text \<open>
  Claim C4 says that for a pair of trains that do not conflict no ordering is forced by
  the constraints of the model. For an express train on section A and a freight train on
  section B, which do not conflict, the model consists of the constraint that the
  variable (0, 1) is 1 and of the definition of the total delay: the express train is
  forced before the freight train by the priority rule.
\<close>

theorem priority_forces_apart_pair:
  "\<not> trains_compete_for_resource (apart_pair ! 0) (apart_pair ! 1)
   \<and> constraints (build_model apart_pair apart_state) = [IsOne 0 1, TotalDelayEq 0]"
  by code_simp

text \<open>
  Claim C4 as amended. For two distinct eligible trains and a feasible assignment of the
  model: if the trains conflict, exactly one of before(i, j) and before(j, i) holds; if
  they do not conflict, the model has no exclusivity constraint for them, and when in
  addition the priority rule of claim C5 applies in neither direction, the two variables
  are free: every choice of their values keeps the assignment feasible.
\<close>

theorem exclusivity_and_free_pairs:
  assumes "feasible (build_model ts st) a" "i < length ts" "j < length ts" "i \<noteq> j"
  shows "(trains_compete_for_resource (ts ! i) (ts ! j) \<longrightarrow> before a i j \<noteq> before a j i)
       \<and> (\<not> trains_compete_for_resource (ts ! i) (ts ! j) \<longrightarrow>
            SumIsOne i j \<notin> set (constraints (build_model ts st))
            \<and> SumIsOne j i \<notin> set (constraints (build_model ts st)))
       \<and> (\<not> trains_compete_for_resource (ts ! i) (ts ! j)
            \<and> \<not> (priority (ts ! i) > priority (ts ! j)
                   \<and> delay_minutes (ts ! j) - delay_minutes (ts ! i) < 30)
            \<and> \<not> (priority (ts ! j) > priority (ts ! i)
                   \<and> delay_minutes (ts ! i) - delay_minutes (ts ! j) < 30) \<longrightarrow>
            feasible (build_model ts st)
              (a\<lparr>before := \<lambda>p q. if p = i \<and> q = j then x
                                  else if p = j \<and> q = i then y else before a p q\<rparr>))"
proof (intro conjI impI)
  assume "trains_compete_for_resource (ts ! i) (ts ! j)"
  then show "before a i j \<noteq> before a j i" using assms by (intro feasible_exclusive)
next
  assume n: "\<not> trains_compete_for_resource (ts ! i) (ts ! j)"
  then show "SumIsOne i j \<notin> set (constraints (build_model ts st))"
    by (auto simp: set_constraints_build_model set_add_precedence_constraints set_add_priority_constraints)
  from n have "\<not> trains_compete_for_resource (ts ! j) (ts ! i)" using compete_sym by blast
  then show "SumIsOne j i \<notin> set (constraints (build_model ts st))"
    by (auto simp: set_constraints_build_model set_add_precedence_constraints set_add_priority_constraints)
next
  assume h: "\<not> trains_compete_for_resource (ts ! i) (ts ! j)
            \<and> \<not> (priority (ts ! i) > priority (ts ! j)
                   \<and> delay_minutes (ts ! j) - delay_minutes (ts ! i) < 30)
            \<and> \<not> (priority (ts ! j) > priority (ts ! i)
                   \<and> delay_minutes (ts ! i) - delay_minutes (ts ! j) < 30)"
  let ?a = "a\<lparr>before := \<lambda>p q. if p = i \<and> q = j then x
                                  else if p = j \<and> q = i then y else before a p q\<rparr>"
  have nc: "\<not> trains_compete_for_resource (ts ! j) (ts ! i)" using h compete_sym by blast
  have sel: "before ?a = (\<lambda>p q. if p = i \<and> q = j then x
                                  else if p = j \<and> q = i then y else before a p q)"
    by simp
  have "satisfies ?a c" if c: "c \<in> set (constraints (build_model ts st))" for c
  proof -
    have sc: "satisfies a c" using assms(1) c unfolding feasible_iff by blast
    show ?thesis
    proof (cases c)
      case (SumIsOne p q)
      then have "trains_compete_for_resource (ts ! p) (ts ! q)"
        using c by (auto simp: set_constraints_build_model set_add_precedence_constraints set_add_priority_constraints)
      then have n: "(p = i \<and> q = j) = False" "(p = j \<and> q = i) = False"
        "(q = i \<and> p = j) = False" "(q = j \<and> p = i) = False"
        using h nc by blast+
      have "before ?a p q = before a p q" "before ?a q p = before a q p"
        unfolding sel by (simp_all only: n if_False)
      then show ?thesis using sc unfolding SumIsOne by (simp only: satisfies.simps)
    next
      case (IsOne p q)
      then have "priority (ts ! p) > priority (ts ! q) \<and> delay_minutes (ts ! q) - delay_minutes (ts ! p) < 30"
        using c by (auto simp: set_constraints_build_model set_add_precedence_constraints set_add_priority_constraints)
      then have n: "(p = i \<and> q = j) = False" "(p = j \<and> q = i) = False"
        using h by blast+
      have "before ?a p q = before a p q"
        unfolding sel by (simp only: n if_False)
      then show ?thesis using sc unfolding IsOne by (simp only: satisfies.simps)
    next
      case (TotalDelayEq s)
      have "total_delay_value ?a = total_delay_value a" by simp
      then show ?thesis using sc unfolding TotalDelayEq by (simp only: satisfies.simps)
    qed
  qed
  then have all: "\<forall>c \<in> set (constraints (build_model ts st)). satisfies ?a c" by blast
  have td: "total_delay_value ?a = total_delay_value a" by simp
  from assms(1) have b: "0 \<le> total_delay_value a" "total_delay_value a \<le> 10000"
    unfolding feasible_iff by blast+
  show "feasible (build_model ts st) ?a"
    unfolding feasible_iff td using b all by blast
qed

theorem exclusivity_and_free_pairs_witness:
  "feasible (build_model equal_pair equal_pair_state) first_then_second
   \<and> trains_compete_for_resource (equal_pair ! 0) (equal_pair ! 1)
   \<and> before first_then_second 0 1 \<noteq> before first_then_second 1 0
   \<and> feasible (build_model separate_pair separate_state) no_order
   \<and> \<not> trains_compete_for_resource (separate_pair ! 0) (separate_pair ! 1)
   \<and> SumIsOne 0 1 \<notin> set (constraints (build_model separate_pair separate_state))
   \<and> feasible (build_model separate_pair separate_state)
        (no_order\<lparr>before := \<lambda>p q. if p = 0 \<and> q = 1 then True
                                   else if p = 1 \<and> q = 0 then True else before no_order p q\<rparr>)"
proof -
  have f1: "feasible (build_model equal_pair equal_pair_state) first_then_second" by code_simp
  have c1: "trains_compete_for_resource (equal_pair ! 0) (equal_pair ! 1)" by code_simp
  have l1: "(0::nat) < length equal_pair" "(1::nat) < length equal_pair" by (simp_all add: equal_pair_def)
  have f2: "feasible (build_model separate_pair separate_state) no_order" by code_simp
  have c2: "\<not> trains_compete_for_resource (separate_pair ! 0) (separate_pair ! 1)" by code_simp
  have p2: "priority (separate_pair ! 0) = priority (separate_pair ! 1)" by code_simp
  have l2: "(0::nat) < length separate_pair" "(1::nat) < length separate_pair" by (simp_all add: separate_pair_def)
  have ne: "(0::nat) \<noteq> 1" by simp
  show ?thesis
    using exclusivity_and_free_pairs [OF f1 l1 ne] exclusivity_and_free_pairs [OF f2 l2 ne, of True True]
      f1 c1 f2 c2 p2 by simp
qed

text \<open>
  Claim C5. For eligible trains at positions \<open>i\<close> and \<open>j\<close> with the priority of
  \<open>i\<close> strictly greater than that of \<open>j\<close>: when the delay of \<open>j\<close> minus the
  delay of \<open>i\<close> is less than 30, the constraint before(i, j) = 1 is added to the
  model; when that difference is 30 or more, the model contains neither
  before(i, j) = 1 nor before(j, i) = 1.
\<close>

theorem priority_constraint_added:
  assumes "i < length ts" "j < length ts" "priority (ts ! i) > priority (ts ! j)"
  shows "(delay_minutes (ts ! j) - delay_minutes (ts ! i) < 30 \<longrightarrow>
            IsOne i j \<in> set (add_priority_constraints ts)
            \<and> IsOne i j \<in> set (constraints (build_model ts st)))
       \<and> (delay_minutes (ts ! j) - delay_minutes (ts ! i) \<ge> 30 \<longrightarrow>
            IsOne i j \<notin> set (constraints (build_model ts st))
            \<and> IsOne j i \<notin> set (constraints (build_model ts st)))"
proof -
  have "i \<noteq> j" using assms(3) by auto
  then show ?thesis
    using assms unfolding IsOne_in_model_iff IsOne_in_priority_iff by auto
qed

theorem priority_constraint_added_witness:
  "priority (apart_pair ! 0) > priority (apart_pair ! 1)
   \<and> delay_minutes (apart_pair ! 1) - delay_minutes (apart_pair ! 0) < 30
   \<and> IsOne 0 1 \<in> set (constraints (build_model apart_pair apart_state))
   \<and> priority (late_freight_pair ! 0) > priority (late_freight_pair ! 1)
   \<and> delay_minutes (late_freight_pair ! 1) - delay_minutes (late_freight_pair ! 0) \<ge> 30
   \<and> IsOne 0 1 \<notin> set (constraints (build_model late_freight_pair late_freight_state))
   \<and> IsOne 1 0 \<notin> set (constraints (build_model late_freight_pair late_freight_state))"
proof -
  have l1: "(0::nat) < length apart_pair" "(1::nat) < length apart_pair"
    by (simp_all add: apart_pair_def)
  have p1: "priority (apart_pair ! 0) > priority (apart_pair ! 1)" by code_simp
  have d1: "delay_minutes (apart_pair ! 1) - delay_minutes (apart_pair ! 0) < 30" by code_simp
  have l2: "(0::nat) < length late_freight_pair" "(1::nat) < length late_freight_pair"
    by (simp_all add: late_freight_pair_def)
  have p2: "priority (late_freight_pair ! 0) > priority (late_freight_pair ! 1)" by code_simp
  have d2: "delay_minutes (late_freight_pair ! 1) - delay_minutes (late_freight_pair ! 0) \<ge> 30"
    by code_simp
  show ?thesis
    using priority_constraint_added [OF l1 p1, of apart_state]
      priority_constraint_added [OF l2 p2, of late_freight_state] p1 d1 p2 d2
    by simp
qed

section \<open>The objective\<close>

text \<open>
  Claim C10. The objective of the model is the variable \<^verbatim>\<open>total_delay\<close>, which one
  constraint equates with the sum over the trains of priority times 10 times delay, a
  number fixed by the input trains. So every feasible assignment has this objective
  value, whatever its precedence variables are, and any two feasible assignments have
  the same objective value.
\<close>

theorem objective_constant:
  assumes "feasible (build_model ts st) a" "feasible (build_model ts st) b"
  shows "objective_value a = (\<Sum>t\<leftarrow>ts. (priority t * 10) * delay_minutes t)
         \<and> objective_value b = objective_value a"
proof -
  have "TotalDelayEq (sum_list (delay_terms ts)) \<in> set (constraints (build_model ts st))"
    by (simp add: set_constraints_build_model)
  then have "satisfies a (TotalDelayEq (sum_list (delay_terms ts)))"
    "satisfies b (TotalDelayEq (sum_list (delay_terms ts)))"
    using assms unfolding feasible_iff by blast+
  then show ?thesis by (simp add: objective_value_def delay_terms_def)
qed

theorem objective_constant_witness:
  "feasible (build_model equal_pair equal_pair_state) first_then_second
   \<and> feasible (build_model equal_pair equal_pair_state) second_then_first
   \<and> before first_then_second \<noteq> before second_then_first
   \<and> objective_value first_then_second = 450
   \<and> objective_value second_then_first = objective_value first_then_second"
proof -
  have f1: "feasible (build_model equal_pair equal_pair_state) first_then_second" by code_simp
  have f2: "feasible (build_model equal_pair equal_pair_state) second_then_first" by code_simp
  have d: "before first_then_second 0 1 \<noteq> before second_then_first 0 1"
    by (simp add: first_then_second_def second_then_first_def)
  then have d': "before first_then_second \<noteq> before second_then_first" by metis
  have v: "(\<Sum>t\<leftarrow>equal_pair. (priority t * 10) * delay_minutes t) = 450" by code_simp
  show ?thesis using objective_constant [OF f1 f2] f1 f2 d' v by simp
qed

section \<open>Two trains on one section\<close>

text \<open>
  The list \<^verbatim>\<open>precedence_order\<close> for the three express trains of section A under the
  cyclic assignment, which is feasible: every train has one train before it.
\<close>

lemma cyclic_assignment_ranks:
  "feasible (build_model three_on_a three_state) cyclic_assignment
   \<and> map fst (precedence_order cyclic_assignment three_on_a) = [1, 1, 1]"
  by code_simp


section \<open>The confidence score\<close>

text \<open>
  The helper \<^verbatim>\<open>_calculate_confidence\<close> by itself, floats read as exact real numbers: on
  a non-empty list of decisions with confidences between 0 and 1 it returns the mean of
  the confidences times min(1, N / 20), which lies between 0 and 1.
\<close>

lemma sum_confidence_bounds:
  assumes "\<forall>d \<in> set ds. 0 \<le> confidence d \<and> confidence d \<le> 1"
  shows "0 \<le> sum_list (map confidence ds) \<and> sum_list (map confidence ds) \<le> real (length ds)"
  using assms by (induction ds) auto

lemma calculate_confidence_formula:
  assumes "ds \<noteq> []" "\<forall>d \<in> set ds. 0 \<le> confidence d \<and> confidence d \<le> 1"
  shows "calculate_confidence ds st =
           (sum_list (map confidence ds) / real (length ds))
           * min 1 (real (length (trains st)) / 20)
       \<and> (20 \<le> length (trains st) \<longrightarrow>
            calculate_confidence ds st = sum_list (map confidence ds) / real (length ds))
       \<and> 0 \<le> calculate_confidence ds st \<and> calculate_confidence ds st \<le> 1"
proof -
  let ?m = "sum_list (map confidence ds) / real (length ds)"
  let ?f = "min 1 (real (length (trains st)) / 20)"
  have len: "0 < real (length ds)" using assms(1) by simp
  have b: "0 \<le> sum_list (map confidence ds)" "sum_list (map confidence ds) \<le> real (length ds)"
    using sum_confidence_bounds [OF assms(2)] by simp_all
  have m: "0 \<le> ?m" "?m \<le> 1" using b len by (simp_all add: divide_le_eq)
  have f: "0 \<le> ?f" "?f \<le> 1" by simp_all
  have eq: "calculate_confidence ds st = ?m * ?f" using assms(1) by (simp add: calculate_confidence_def)
  have sat: "20 \<le> length (trains st) \<longrightarrow> ?f = 1" by (simp add: min_def)
  have "0 \<le> ?m * ?f" using m f by (intro mult_nonneg_nonneg)
  moreover have "?m * ?f \<le> 1" using m f by (intro mult_le_one) 
  ultimately show ?thesis using eq sat by simp
qed


end
